theory Spec2Isabelle
  imports Main
begin

section \<open>Values\<close>

text \<open>
  The server of \<^verbatim>\<open>src/fewsats_mcp/server.py\<close> moves three kinds of data:
  the tool arguments and the input schemas, which are JSON (the arguments are decoded from
  the request, the schemas are dict literals); the values a backend response carries, which
  are arbitrary Python objects (\<^verbatim>\<open>Any\<close>); and exceptions.

  A JSON object is an association list, since \<^verbatim>\<open>json.dumps\<close> renders a dict
  in insertion order. A float is carried as the text \<^verbatim>\<open>float.__repr__\<close> gives
  for it (with \<^verbatim>\<open>NaN\<close> and \<^verbatim>\<open>Infinity\<close> as the encoder spells
  them); no arithmetic is done on it. A string is a list of characters with codes below 256.
\<close>

datatype json = JNull | JBool bool | JInt int | JFloat string | JStr string
  | JList "json list" | JDict "(string \<times> json) list"

text \<open>
  Exceptions. \<open>BackendError\<close> is any other subclass of \<^verbatim>\<open>Exception\<close>, with its
  message. \<^verbatim>\<open>KeyboardInterrupt\<close> and \<^verbatim>\<open>SystemExit\<close> derive from
  \<^verbatim>\<open>BaseException\<close> and are not instances of \<^verbatim>\<open>Exception\<close>: a bare
  \<^verbatim>\<open>except\<close> takes them, \<^verbatim>\<open>except Exception\<close> does not.
\<close>

datatype py_exception = KeyError string | ValueError string | TypeError string
  | BackendError string | KeyboardInterrupt | SystemExit

fun isinstance_Exception :: "py_exception \<Rightarrow> bool" where
  "isinstance_Exception KeyboardInterrupt = False"
| "isinstance_Exception SystemExit = False"
| "isinstance_Exception _ = True"

text \<open>
  \<^verbatim>\<open>str(e)\<close>. For a \<^verbatim>\<open>KeyError\<close> it is the \<^verbatim>\<open>repr\<close> of the key:
  the key between single quotes, for the keys the server looks up (letters, digits and
  underscores).
\<close>

fun py_str :: "py_exception \<Rightarrow> string" where
  "py_str (KeyError k) = [CHR 0x27] @ k @ [CHR 0x27]"
| "py_str (ValueError m) = m"
| "py_str (TypeError m) = m"
| "py_str (BackendError m) = m"
| "py_str KeyboardInterrupt = []"
| "py_str SystemExit = []"

text \<open>
  A Python object that the JSON encoder does not know: its class name and what
  \<^verbatim>\<open>str\<close> does on it, which is to return a string or to raise.
\<close>

datatype pyobject = Object (class_name: string) (str: "py_exception + string")

text \<open>
  A dict key: a string, a number, a boolean, \<^verbatim>\<open>None\<close>, or an object of another
  class (a tuple, bytes), of which the class name is kept.
\<close>

datatype pykey = KStr string | KInt int | KFloat string | KBool bool | KNone | KOther string

text \<open>
  The values a backend response can decode to. Lists and tuples are both \<open>PyList\<close>:
  the encoder treats them alike. \<open>PyCycle\<close> is a reference to a list or dict that holds
  it: where a cyclic value is unfolded as a tree, the place at which a container is met
  again.
\<close>

datatype pyval = PyNone | PyBool bool | PyInt int | PyFloat string | PyStr string
  | PyList "pyval list" | PyDict "(pykey \<times> pyval) list" | PyOther pyobject | PyCycle

text \<open>A JSON value as a Python value: the keys of an object are strings.\<close>

primrec py_of_json :: "json \<Rightarrow> pyval" where
  "py_of_json JNull = PyNone"
| "py_of_json (JBool b) = PyBool b"
| "py_of_json (JInt i) = PyInt i"
| "py_of_json (JFloat r) = PyFloat r"
| "py_of_json (JStr s) = PyStr s"
| "py_of_json (JList xs) = PyList (map py_of_json xs)"
| "py_of_json (JDict kvs) = PyDict (map (map_prod KStr py_of_json) kvs)"

text \<open>\<^verbatim>\<open>d[k]\<close> on a dict.\<close>

definition getitem :: "(string \<times> 'v) list \<Rightarrow> string \<Rightarrow> py_exception + 'v" where
  "getitem d k = (case map_of d k of None \<Rightarrow> Inl (KeyError k) | Some v \<Rightarrow> Inr v)"

section \<open>The JSON encoder\<close>

text \<open>
  \<^verbatim>\<open>json.dumps(obj, indent=n, default=f)\<close> of the standard library, for an integer
  \<open>n\<close> and for \<open>f\<close> absent or a function to strings (as \<^verbatim>\<open>str\<close> is). With
  an indent the item separator is a comma and the key separator a colon and a space; every
  item starts a new line, \<open>n\<close> spaces deeper per level; an empty list is
  \<^verbatim>\<open>[]\<close> and an empty dict \<^verbatim>\<open>{}\<close>. The encoder raises
  \<^verbatim>\<open>TypeError\<close> on a dict key that is not a string, a number, a boolean or
  \<^verbatim>\<open>None\<close>, with or without \<open>f\<close>; \<^verbatim>\<open>ValueError\<close> on a circular
  reference; \<^verbatim>\<open>TypeError\<close> on an object it does not know when there is no \<open>f\<close>;
  and whatever \<open>f\<close> raises on such an object. An integer is rendered in decimal. The
  limits of the interpreter (the depth of recursion, the number of digits of an integer)
  are not modelled.
\<close>

definition hex_digit :: "nat \<Rightarrow> char" where
  "hex_digit n = ''0123456789abcdef'' ! (n mod 16)"

text \<open>
  \<^verbatim>\<open>ensure_ascii\<close> is on: everything but the printable ASCII characters is escaped.
\<close>

definition escape_char :: "char \<Rightarrow> string" where
  "escape_char c =
    (if c = CHR 0x22 then [CHR 0x5C, CHR 0x22]
     else if c = CHR 0x5C then [CHR 0x5C, CHR 0x5C]
     else if c = CHR 0x08 then [CHR 0x5C, CHR ''b'']
     else if c = CHR 0x0C then [CHR 0x5C, CHR ''f'']
     else if c = CHR 0x0A then [CHR 0x5C, CHR ''n'']
     else if c = CHR 0x0D then [CHR 0x5C, CHR ''r'']
     else if c = CHR 0x09 then [CHR 0x5C, CHR ''t'']
     else if of_char c < (0x20 :: nat) \<or> (0x7E :: nat) < of_char c then
       [CHR 0x5C, CHR ''u'', CHR ''0'', CHR ''0'',
        hex_digit (of_char c div 16), hex_digit (of_char c)]
     else [c])"

definition encode_basestring_ascii :: "string \<Rightarrow> string" where
  "encode_basestring_ascii s = [CHR 0x22] @ concat (map escape_char s) @ [CHR 0x22]"

fun digits :: "nat \<Rightarrow> string" where
  "digits n =
    (if n < 10 then [''0123456789'' ! n]
     else digits (n div 10) @ [''0123456789'' ! (n mod 10)])"

definition int_repr :: "int \<Rightarrow> string" where
  "int_repr i = (if i < 0 then ''-'' @ digits (nat (- i)) else digits (nat i))"

definition newline_indent :: "nat \<Rightarrow> nat \<Rightarrow> string" where
  "newline_indent indent level = CHR 0x0A # replicate (indent * level) CHR '' ''"

fun join :: "string \<Rightarrow> string list \<Rightarrow> string" where
  "join sep [] = []"
| "join sep [x] = x"
| "join sep (x # y # ys) = x @ sep @ join sep (y # ys)"

text \<open>The chunks of a container, up to the first one that raises.\<close>

fun collect :: "('e + 'a) list \<Rightarrow> 'e + 'a list" where
  "collect [] = Inr []"
| "collect (Inl e # rs) = Inl e"
| "collect (Inr v # rs) = (case collect rs of Inl e \<Rightarrow> Inl e | Inr vs \<Rightarrow> Inr (v # vs))"

definition container :: "string \<Rightarrow> string \<Rightarrow> nat \<Rightarrow> nat \<Rightarrow> string list \<Rightarrow> string" where
  "container opening closing indent level items =
    opening @ newline_indent indent (Suc level)
      @ join ('','' @ newline_indent indent (Suc level)) items
      @ newline_indent indent level @ closing"

text \<open>The text of a dict key, before it is quoted.\<close>

fun key_text :: "pykey \<Rightarrow> py_exception + string" where
  "key_text (KStr s) = Inr s"
| "key_text (KInt i) = Inr (int_repr i)"
| "key_text (KFloat r) = Inr r"
| "key_text (KBool b) = Inr (if b then ''true'' else ''false'')"
| "key_text KNone = Inr ''null''"
| "key_text (KOther cls) =
    Inl (TypeError (''keys must be str, int, float, bool or None, not '' @ cls))"

fun iterencode :: "nat \<Rightarrow> (pyobject \<Rightarrow> py_exception + string) option \<Rightarrow> nat \<Rightarrow> pyval \<Rightarrow> py_exception + string" where
  "iterencode indent default' level PyNone = Inr ''null''"
| "iterencode indent default' level (PyBool b) = Inr (if b then ''true'' else ''false'')"
| "iterencode indent default' level (PyInt i) = Inr (int_repr i)"
| "iterencode indent default' level (PyFloat r) = Inr r"
| "iterencode indent default' level (PyStr s) = Inr (encode_basestring_ascii s)"
| "iterencode indent default' level (PyList xs) =
    (if xs = [] then Inr ''[]''
     else case collect (map (\<lambda>x. iterencode indent default' (Suc level) x) xs) of
            Inl e \<Rightarrow> Inl e
          | Inr items \<Rightarrow> Inr (container ''['' '']'' indent level items))"
| "iterencode indent default' level (PyDict kvs) =
    (if kvs = [] then Inr ''{}''
     else case collect (map (\<lambda>kv. case key_text (fst kv) of
                                     Inl e \<Rightarrow> Inl e
                                   | Inr k \<Rightarrow>
                                       (case iterencode indent default' (Suc level) (snd kv) of
                                          Inl e \<Rightarrow> Inl e
                                        | Inr s \<Rightarrow> Inr (encode_basestring_ascii k @ '': '' @ s)))
                            kvs) of
            Inl e \<Rightarrow> Inl e
          | Inr items \<Rightarrow> Inr (container ''{'' ''}'' indent level items))"
| "iterencode indent default' level (PyOther obj) =
    (case default' of
       None \<Rightarrow> Inl (TypeError (''Object of type '' @ class_name obj @ '' is not JSON serializable''))
     | Some f \<Rightarrow> (case f obj of Inl e \<Rightarrow> Inl e | Inr s \<Rightarrow> Inr (encode_basestring_ascii s)))"
| "iterencode indent default' level PyCycle = Inl (ValueError ''Circular reference detected'')"

definition json_dumps :: "pyval \<Rightarrow> nat \<Rightarrow> (pyobject \<Rightarrow> py_exception + string) option \<Rightarrow> py_exception + string" where
  "json_dumps obj indent default' = iterencode indent default' 0 obj"

text \<open>
  The values that \<^verbatim>\<open>default=str\<close> lets the encoder render: every dict key is a
  string, a number, a boolean or \<^verbatim>\<open>None\<close>, there is no circular reference, and
  \<^verbatim>\<open>str\<close> returns on every object the encoder does not know.
\<close>

fun basic_key :: "pykey \<Rightarrow> bool" where
  "basic_key (KOther cls) = False"
| "basic_key _ = True"

fun encodable :: "pyval \<Rightarrow> bool" where
  "encodable (PyList xs) = list_all encodable xs"
| "encodable (PyDict kvs) = list_all (\<lambda>kv. basic_key (fst kv) \<and> encodable (snd kv)) kvs"
| "encodable (PyOther obj) = (case str obj of Inl e \<Rightarrow> False | Inr s \<Rightarrow> True)"
| "encodable PyCycle = False"
| "encodable _ = True"

section \<open>The response normalizer\<close>

text \<open>
  A response of the payment client: \<^verbatim>\<open>status_code\<close> and \<^verbatim>\<open>text\<close> are
  attributes, \<^verbatim>\<open>json()\<close> is a call that returns the decoded body or raises.
\<close>

datatype response = Response (status_code: int) (body_text: string) (json: "py_exception + pyval")

text \<open>
  \<^verbatim>\<open>_handle_response\<close>: the bare \<^verbatim>\<open>except\<close> takes whatever the
  \<^verbatim>\<open>try\<close> raised.
\<close>

definition handle_response :: "response \<Rightarrow> py_exception + (int \<times> pyval)" where
  "handle_response response =
    (case (case json response of
             Inl e \<Rightarrow> Inl e
           | Inr parsed \<Rightarrow> Inr (status_code response, parsed)) of
       Inr result \<Rightarrow> Inr result
     | Inl _ \<Rightarrow> Inr (status_code response, PyStr (body_text response)))"

section \<open>The tool registry\<close>

datatype tool = Tool (name: string) (description: string) (inputSchema: json)

text \<open>\<^verbatim>\<open>list_tools\<close>: the body is the return of a list literal.\<close>

definition list_tools :: "tool list" where
  "list_tools =
    [Tool ''balance''
       ''Retrieve the balance of the user's wallet. You will rarely need to call this unless instructed by the user, or to troubleshoot payment issues. Fewsats will automatically add balance when needed.''
       (JDict [(''type'', JStr ''object''), (''properties'', JDict [])]),
     Tool ''payment_methods''
       ''Retrieve the user's payment methods. You will rarely need to call this unless instructed by the user, or to troubleshoot payment issues. Fewsats will automatically select the best payment method.''
       (JDict [(''type'', JStr ''object''), (''properties'', JDict [])]),
     Tool ''billing_info''
       ''Retrieve the user's billing information. Returns billing details including name, address, and other relevant information. This information can also be used as shipping address for purchases.''
       (JDict [(''type'', JStr ''object''), (''properties'', JDict [])]),
     Tool ''pay_offer''
       ''Pays an offer_id from the l402_offers. If payment status is 'needs_review' inform the user he will have to approve it at app.fewsats.com''
       (JDict
         [(''type'', JStr ''object''),
          (''properties'', JDict
            [(''offer_id'', JDict
               [(''type'', JStr ''string''),
                (''description'', JStr ''String identifier for the offer to pay'')]),
             (''l402_offer'', JDict
               [(''type'', JStr ''object''),
                (''description'', JStr ''L402 offer object with structure containing offers array, payment_context_token, payment_request_url, and version''),
                (''properties'', JDict
                  [(''offers'', JDict
                     [(''type'', JStr ''array''),
                      (''items'', JDict
                        [(''type'', JStr ''object''),
                         (''properties'', JDict
                           [(''id'', JDict [(''type'', JStr ''string''), (''description'', JStr ''String identifier for the offer'')]),
                            (''amount'', JDict [(''type'', JStr ''number''), (''description'', JStr ''Numeric cost value'')]),
                            (''currency'', JDict [(''type'', JStr ''string''), (''description'', JStr ''Currency code'')]),
                            (''description'', JDict [(''type'', JStr ''string''), (''description'', JStr ''Text description'')]),
                            (''title'', JDict [(''type'', JStr ''string''), (''description'', JStr ''Title of the package'')])]),
                         (''required'', JList [JStr ''id'', JStr ''amount'', JStr ''currency''])])]),
                   (''payment_context_token'', JDict [(''type'', JStr ''string''), (''description'', JStr ''Payment context token'')]),
                   (''payment_request_url'', JDict [(''type'', JStr ''string''), (''description'', JStr ''Payment URL'')]),
                   (''version'', JDict [(''type'', JStr ''string''), (''description'', JStr ''API version'')])]),
                (''required'', JList [JStr ''offers'', JStr ''payment_context_token'', JStr ''payment_request_url'', JStr ''version''])])]),
          (''required'', JList [JStr ''offer_id'', JStr ''l402_offer''])]),
     Tool ''payment_info''
       ''Retrieve the details of a payment. If payment status is 'needs_review' inform the user he will have to approve it at app.fewsats.com''
       (JDict
         [(''type'', JStr ''object''),
          (''properties'', JDict
            [(''pid'', JDict [(''type'', JStr ''string''), (''description'', JStr ''Payment ID to retrieve information for'')])]),
          (''required'', JList [JStr ''pid''])]),
     Tool ''create_x402_payment_header''
       ''Creates a payment header for the X402 protocol. Returns a dict with the payment_header field that must be set in X-PAYMENT header in a x402 http request.''
       (JDict
         [(''type'', JStr ''object''),
          (''properties'', JDict
            [(''chain'', JDict
               [(''type'', JStr ''string''),
                (''enum'', JList [JStr ''base-sepolia'', JStr ''base'']),
                (''description'', JStr ''Blockchain network to use for payment'')]),
             (''x402_payload'', JDict
               [(''type'', JStr ''object''),
                (''description'', JStr ''X402 payload object with accepts array and protocol details''),
                (''properties'', JDict
                  [(''accepts'', JDict
                     [(''type'', JStr ''array''),
                      (''items'', JDict
                        [(''type'', JStr ''object''),
                         (''properties'', JDict
                           [(''asset'', JDict [(''type'', JStr ''string''), (''description'', JStr ''Asset contract address'')]),
                            (''description'', JDict [(''type'', JStr ''string''), (''description'', JStr ''Payment description'')]),
                            (''extra'', JDict
                              [(''type'', JStr ''object''),
                               (''properties'', JDict
                                 [(''name'', JDict [(''type'', JStr ''string'')]),
                                  (''version'', JDict [(''type'', JStr ''string'')])])]),
                            (''maxAmountRequired'', JDict [(''type'', JStr ''string''), (''description'', JStr ''Maximum amount required'')]),
                            (''maxTimeoutSeconds'', JDict [(''type'', JStr ''number''), (''description'', JStr ''Maximum timeout in seconds'')]),
                            (''mimeType'', JDict [(''type'', JStr ''string''), (''description'', JStr ''MIME type'')]),
                            (''network'', JDict [(''type'', JStr ''string''), (''description'', JStr ''Network identifier'')]),
                            (''payTo'', JDict [(''type'', JStr ''string''), (''description'', JStr ''Payment recipient address'')]),
                            (''resource'', JDict [(''type'', JStr ''string''), (''description'', JStr ''Resource URL'')]),
                            (''scheme'', JDict [(''type'', JStr ''string''), (''description'', JStr ''Payment scheme'')])]),
                         (''required'', JList [JStr ''asset'', JStr ''network'', JStr ''payTo'', JStr ''resource''])])]),
                   (''error'', JDict [(''type'', JStr ''string''), (''description'', JStr ''Error message'')]),
                   (''x402Version'', JDict [(''type'', JStr ''number''), (''description'', JStr ''X402 protocol version'')])]),
                (''required'', JList [JStr ''accepts'', JStr ''x402Version''])])]),
          (''required'', JList [JStr ''chain'', JStr ''x402_payload''])])]"

text \<open>
  The keys the registry declares as required for a tool: the top-level \<^verbatim>\<open>required\<close>
  list of its input schema, empty when the schema has none or no tool has the name.
\<close>

definition required :: "string \<Rightarrow> string list" where
  "required tool_name =
    (case find (\<lambda>t. name t = tool_name) list_tools of
       None \<Rightarrow> []
     | Some t \<Rightarrow>
         (case inputSchema t of
            JDict kvs \<Rightarrow>
              (case map_of kvs ''required'' of
                 Some (JList ks) \<Rightarrow> concat (map (\<lambda>j. case j of JStr k \<Rightarrow> [k] | _ \<Rightarrow> []) ks)
               | _ \<Rightarrow> [])
          | _ \<Rightarrow> []))"

section \<open>The dispatcher\<close>

text \<open>
  The payment client is outside the repository. One invocation of \<^verbatim>\<open>call_tool\<close>
  makes at most one call to it, so the client is what it answers to each call: a response,
  or an exception, which may be one that is not an instance of \<^verbatim>\<open>Exception\<close>.
  The arguments of a call stand in the order the source passes them.
\<close>

datatype backend_call = Balance | Payment_methods | Billing_info
  | Pay_offer json json | Payment_info json | Pay_x402_offer json json

type_synonym fewsats = "backend_call \<Rightarrow> py_exception + response"

datatype text_content = TextContent (content_type: string) (content_text: string)

text \<open>
  \<^verbatim>\<open>self._handle_response(self.fewsats.op(...))\<close>: the call made, and the normalized
  response or the exception of the call.
\<close>

definition handled :: "fewsats \<Rightarrow> backend_call \<Rightarrow> backend_call list \<times> (py_exception + (int \<times> pyval))" where
  "handled fs c = ([c], case fs c of Inl e \<Rightarrow> Inl e | Inr response \<Rightarrow> handle_response response)"

text \<open>
  The routing chain of \<^verbatim>\<open>call_tool\<close> (the \<^verbatim>\<open>if\<close>/\<^verbatim>\<open>elif\<close> of the
  \<^verbatim>\<open>try\<close> block): the calls made to the client, and \<^verbatim>\<open>result\<close> or the
  exception raised.
\<close>

definition route :: "fewsats \<Rightarrow> string \<Rightarrow> (string \<times> json) list \<Rightarrow> backend_call list \<times> (py_exception + (int \<times> pyval))" where
  "route fs name arguments =
    (if name = ''balance'' then handled fs Balance
     else if name = ''payment_methods'' then handled fs Payment_methods
     else if name = ''billing_info'' then handled fs Billing_info
     else if name = ''pay_offer'' then
       (case getitem arguments ''offer_id'' of
          Inl e \<Rightarrow> ([], Inl e)
        | Inr offer_id \<Rightarrow>
            (case getitem arguments ''l402_offer'' of
               Inl e \<Rightarrow> ([], Inl e)
             | Inr l402_offer \<Rightarrow> handled fs (Pay_offer offer_id l402_offer)))
     else if name = ''payment_info'' then
       (case getitem arguments ''pid'' of
          Inl e \<Rightarrow> ([], Inl e)
        | Inr pid \<Rightarrow> handled fs (Payment_info pid))
     else if name = ''create_x402_payment_header'' then
       (case getitem arguments ''chain'' of
          Inl e \<Rightarrow> ([], Inl e)
        | Inr chain \<Rightarrow>
            (case getitem arguments ''x402_payload'' of
               Inl e \<Rightarrow> ([], Inl e)
             | Inr x402_payload \<Rightarrow> handled fs (Pay_x402_offer x402_payload chain)))
     else ([], Inl (ValueError (''Unknown tool: '' @ name))))"
  for name

text \<open>
  The whole \<^verbatim>\<open>try\<close> block: the routing, then the \<^verbatim>\<open>return\<close> of the
  result, a tuple of the status and the payload, rendered with \<^verbatim>\<open>indent=2\<close> and
  \<^verbatim>\<open>default=str\<close>.
\<close>

definition call_tool_try :: "fewsats \<Rightarrow> string \<Rightarrow> (string \<times> json) list \<Rightarrow> backend_call list \<times> (py_exception + text_content list)" where
  "call_tool_try fs name arguments =
    (case route fs name arguments of
       (calls, Inl e) \<Rightarrow> (calls, Inl e)
     | (calls, Inr (status, payload)) \<Rightarrow>
         (calls,
          case json_dumps (PyList [PyInt status, payload]) 2 (Some str) of
            Inl e \<Rightarrow> Inl e
          | Inr s \<Rightarrow> Inr [TextContent ''text'' s]))"
  for name

text \<open>
  The \<^verbatim>\<open>except Exception as e\<close> block. Its \<^verbatim>\<open>json.dumps\<close> has no
  \<^verbatim>\<open>default\<close>, so it raises on an object the encoder does not know; the
  arguments are JSON and hold none.
\<close>

definition error_result :: "py_exception \<Rightarrow> string \<Rightarrow> (string \<times> json) list \<Rightarrow> pyval" where
  "error_result e name arguments =
    PyDict [(KStr ''error'', PyStr (py_str e)), (KStr ''tool'', PyStr name),
            (KStr ''arguments'', py_of_json (JDict arguments))]"
  for name

definition call_tool_except :: "py_exception \<Rightarrow> string \<Rightarrow> (string \<times> json) list \<Rightarrow> py_exception + text_content list" where
  "call_tool_except e name arguments =
    (case json_dumps (error_result e name arguments) 2 None of
       Inl e' \<Rightarrow> Inl e'
     | Inr s \<Rightarrow> Inr [TextContent ''text'' s])"
  for name

text \<open>
  \<^verbatim>\<open>call_tool\<close>: the calls made to the client, and the list returned or the
  exception that leaves the function. \<^verbatim>\<open>except Exception\<close> takes the instances of
  \<^verbatim>\<open>Exception\<close>; any other exception of the \<^verbatim>\<open>try\<close> block propagates.
\<close>

definition call_tool :: "fewsats \<Rightarrow> string \<Rightarrow> (string \<times> json) list \<Rightarrow> backend_call list \<times> (py_exception + text_content list)" where
  "call_tool fs name arguments =
    (case call_tool_try fs name arguments of
       (calls, Inr out) \<Rightarrow> (calls, Inr out)
     | (calls, Inl e) \<Rightarrow>
         (calls,
          if isinstance_Exception e then call_tool_except e name arguments else Inl e))"
  for name

section \<open>Validation before dispatch\<close>







section \<open>Concrete inputs\<close>

text \<open>
  Texts are written line by line; \<open>quoted\<close> puts a string between double quotes. Each
  client answers every call alike.
\<close>

definition quoted :: "string \<Rightarrow> string" where
  "quoted s = CHR 0x22 # s @ [CHR 0x22]"

definition text_lines :: "string list \<Rightarrow> string" where
  "text_lines ls = join [CHR 0x0A] ls"

definition backend_down :: fewsats where
  "backend_down c = Inl (BackendError ''connection refused'')"

definition backend_interrupted :: fewsats where
  "backend_interrupted c = Inl KeyboardInterrupt"

definition backend_exits :: fewsats where
  "backend_exits c = Inl SystemExit"

definition backend_ok :: fewsats where
  "backend_ok c = Inr (Response 200 ''{}'' (Inr (PyDict [(KStr ''balance'', PyInt 100)])))"

text \<open>A body that holds an object the encoder does not know, a \<^verbatim>\<open>Decimal\<close>.\<close>

definition backend_decimal :: fewsats where
  "backend_decimal c =
    Inr (Response 200 ''{}''
      (Inr (PyDict [(KStr ''balance'', PyOther (Object ''Decimal'' (Inr ''100.5'')))])))"

text \<open>A body with a tuple as a dict key.\<close>

definition backend_tuple_key :: fewsats where
  "backend_tuple_key c =
    Inr (Response 200 ''{}'' (Inr (PyDict [(KOther ''tuple'', PyInt 100)])))"


text \<open>
  A value with every kind of key and of value that the encoder renders, and a string with
  every kind of character that it escapes.
\<close>

definition sample_string :: string where
  "sample_string =
    [CHR ''q'', CHR 0x22, CHR 0x5C, CHR 0x08, CHR 0x0C, CHR 0x0A, CHR 0x0D, CHR 0x09,
     CHR 0x01, CHR 0x1F, CHR '' '', CHR ''~'', CHR 0x7F, CHR 0xE9, CHR 0x82, CHR 0xA3,
     CHR 0xB4, CHR 0xC5, CHR 0xD6, CHR ''a'']"

definition sample_value :: pyval where
  "sample_value =
    PyDict
      [(KInt 7, PyInt 3), (KNone, PyInt 4), (KFloat ''1.5'', PyInt 5), (KBool True, PyNone),
       (KStr ''s'',
        PyList [PyInt (- 12), PyInt 105, PyInt 68, PyInt 97, PyFloat ''1.0'', PyFloat ''NaN'',
                PyBool True, PyBool False, PyNone, PyList [], PyDict [], PyStr sample_string,
                PyOther (Object ''Decimal'' (Inr ''100.5'')),
                PyDict [(KStr ''k'', PyList [PyInt 0])]])]"

text \<open>
  What \<^verbatim>\<open>json.dumps([200, sample_value], indent=2, default=str)\<close> returns in
  Python, line by line.
\<close>

definition sample_rendering :: string where
  "sample_rendering =
    text_lines
      [''['',
       ''  200,'',
       ''  {'',
       ''    '' @ [CHR 0x22] @ ''7'' @ [CHR 0x22] @ '': 3,'',
       ''    '' @ [CHR 0x22] @ ''null'' @ [CHR 0x22] @ '': 4,'',
       ''    '' @ [CHR 0x22] @ ''1.5'' @ [CHR 0x22] @ '': 5,'',
       ''    '' @ [CHR 0x22] @ ''true'' @ [CHR 0x22] @ '': null,'',
       ''    '' @ [CHR 0x22] @ ''s'' @ [CHR 0x22] @ '': ['',
       ''      -12,'',
       ''      105,'',
       ''      68,'',
       ''      97,'',
       ''      1.0,'',
       ''      NaN,'',
       ''      true,'',
       ''      false,'',
       ''      null,'',
       ''      [],'',
       ''      {},'',
       ''      '' @ [CHR 0x22] @ ''q'' @ [CHR 0x5C, CHR 0x22, CHR 0x5C, CHR 0x5C, CHR 0x5C] @ ''b'' @ [CHR 0x5C] @ ''f'' @ [CHR 0x5C] @ ''n'' @ [CHR 0x5C] @ ''r'' @ [CHR 0x5C] @ ''t'' @ [CHR 0x5C] @ ''u0001'' @ [CHR 0x5C] @ ''u001f ~'' @ [CHR 0x5C] @ ''u007f'' @ [CHR 0x5C] @ ''u00e9'' @ [CHR 0x5C] @ ''u0082'' @ [CHR 0x5C] @ ''u00a3'' @ [CHR 0x5C] @ ''u00b4'' @ [CHR 0x5C] @ ''u00c5'' @ [CHR 0x5C] @ ''u00d6a'' @ [CHR 0x22] @ '','',
       ''      '' @ [CHR 0x22] @ ''100.5'' @ [CHR 0x22] @ '','',
       ''      {'',
       ''        '' @ [CHR 0x22] @ ''k'' @ [CHR 0x22] @ '': ['',
       ''          0'',
       ''        ]'',
       ''      }'',
       ''    ]'',
       ''  }'',
       '']'']"

text \<open>
  A minimal X402 payload that meets its schema, and an L402 offer that lacks the required
  \<^verbatim>\<open>payment_context_token\<close>.
\<close>

definition x402_payload_min :: json where
  "x402_payload_min =
    JDict [(''accepts'', JList [JDict [(''asset'', JStr ''0x01''), (''network'', JStr ''base''),
                                       (''payTo'', JStr ''0x02''), (''resource'', JStr ''https://x'')]]),
           (''x402Version'', JInt 1)]"


section \<open>The encoder, the routing and the dispatcher\<close>

lemma collect_map_Inr:
  assumes "\<And>x. x \<in> set xs \<Longrightarrow> \<exists>s. f x = Inr s"
  shows "\<exists>ss. collect (map f xs) = Inr ss"
  using assms
proof (induction xs)
  case Nil
  show ?case by simp
next
  case (Cons x xs)
  obtain s where "f x = Inr s" using Cons.prems[of x] by auto
  moreover obtain ss where "collect (map f xs) = Inr ss" using Cons by auto
  ultimately show ?case by simp
qed

lemma collect_map_Inr_D:
  assumes "collect (map f xs) = Inr ss" and "x \<in> set xs"
  shows "\<exists>s. f x = Inr s"
  using assms
proof (induction xs arbitrary: ss)
  case Nil
  then show ?case by simp
next
  case (Cons y ys)
  show ?case
  proof (cases "f y")
    case (Inl e)
    with Cons.prems show ?thesis by simp
  next
    case (Inr s)
    show ?thesis
    proof (cases "collect (map f ys)")
      case (Inl e)
      with Inr Cons.prems show ?thesis by simp
    next
      case (Inr ss')
      with Cons \<open>f y = Inr s\<close> show ?thesis by auto
    qed
  qed
qed

lemma collect_map_Inr_iff:
  "(\<exists>ss. collect (map f xs) = Inr ss) \<longleftrightarrow> (\<forall>x\<in>set xs. \<exists>s. f x = Inr s)"
  using collect_map_Inr[of xs f] collect_map_Inr_D[of f xs] by blast

lemma key_text_Inr_iff: "(\<exists>s. key_text k = Inr s) \<longleftrightarrow> basic_key k"
  by (cases k) simp_all

lemma encodable_iff:
  "(\<exists>s. iterencode indent (Some str) level v = Inr s) \<longleftrightarrow> encodable v"
proof (induction v arbitrary: level)
  case (PyList xs)
  have "(\<exists>ss. collect (map (\<lambda>x. iterencode indent (Some str) (Suc level) x) xs) = Inr ss)
    \<longleftrightarrow> (\<forall>x\<in>set xs. encodable x)"
    unfolding collect_map_Inr_iff using PyList by blast
  then show ?case
    by (cases "collect (map (\<lambda>x. iterencode indent (Some str) (Suc level) x) xs)")
       (auto simp: list_all_iff)
next
  case (PyDict kvs)
  let ?item = "\<lambda>kv. case key_text (fst kv) of
                        Inl e \<Rightarrow> Inl e
                      | Inr k \<Rightarrow>
                          (case iterencode indent (Some str) (Suc level) (snd kv) of
                             Inl e \<Rightarrow> Inl e
                           | Inr s \<Rightarrow> Inr (encode_basestring_ascii k @ '': '' @ s))"
  have item: "(\<exists>s. ?item kv = Inr s) \<longleftrightarrow> basic_key (fst kv) \<and> encodable (snd kv)"
    if "kv \<in> set kvs" for kv
  proof -
    have "snd kv \<in> Basic_BNFs.snds kv" by (cases kv) simp
    then have "(\<exists>s. iterencode indent (Some str) (Suc level) (snd kv) = Inr s)
      \<longleftrightarrow> encodable (snd kv)"
      using PyDict that by blast
    then show ?thesis
      using key_text_Inr_iff[of "fst kv"]
      by (cases "key_text (fst kv)";
          cases "iterencode indent (Some str) (Suc level) (snd kv)") auto
  qed
  have "(\<exists>ss. collect (map ?item kvs) = Inr ss)
    \<longleftrightarrow> (\<forall>kv\<in>set kvs. basic_key (fst kv) \<and> encodable (snd kv))"
    unfolding collect_map_Inr_iff using item by blast
  then show ?case
    by (cases "collect (map ?item kvs)") (auto simp: list_all_iff)
next
  case (PyOther obj)
  show ?case by (cases "str obj") simp_all
qed simp_all

lemma json_dumps_encodable:
  "(\<exists>s. json_dumps v indent (Some str) = Inr s) \<longleftrightarrow> encodable v"
  unfolding json_dumps_def by (rule encodable_iff)

lemma iterencode_json_total: "\<exists>s. iterencode indent d level (py_of_json j) = Inr s"
proof (induction j arbitrary: level)
  case (JList xs)
  have "\<exists>ss. collect (map (\<lambda>x. iterencode indent d (Suc level) (py_of_json x)) xs) = Inr ss"
    by (rule collect_map_Inr) (rule JList)
  then show ?case by (auto simp: comp_def)
next
  case (JDict kvs)
  let ?item = "\<lambda>kv. case key_text (fst kv) of
                        Inl e \<Rightarrow> Inl e
                      | Inr k \<Rightarrow>
                          (case iterencode indent d (Suc level) (snd kv) of
                             Inl e \<Rightarrow> Inl e
                           | Inr s \<Rightarrow> Inr (encode_basestring_ascii k @ '': '' @ s))"
  have "\<exists>ss. collect (map ?item (map (map_prod KStr py_of_json) kvs)) = Inr ss"
  proof (rule collect_map_Inr)
    fix kv' assume "kv' \<in> set (map (map_prod KStr py_of_json) kvs)"
    then obtain kv where kv: "kv \<in> set kvs" and kv': "kv' = (KStr (fst kv), py_of_json (snd kv))"
      by auto
    have "snd kv \<in> Basic_BNFs.snds kv" by (cases kv) simp
    then obtain s where "iterencode indent d (Suc level) (py_of_json (snd kv)) = Inr s"
      using JDict kv by blast
    then show "\<exists>s. ?item kv' = Inr s"
      by (simp add: kv')
  qed
  then show ?case by auto
qed simp_all

lemma error_result_json:
  fixes name :: string
  shows "error_result e name arguments =
    py_of_json (JDict [(''error'', JStr (py_str e)), (''tool'', JStr name), (''arguments'', JDict arguments)])"
  by (simp add: error_result_def)

lemma error_result_dumps:
  fixes name :: string
  shows "\<exists>s. json_dumps (error_result e name arguments) 2 None = Inr s"
  unfolding json_dumps_def error_result_json by (rule iterencode_json_total)

lemma call_tool_except_returns:
  fixes name :: string
  shows "\<exists>s. json_dumps (error_result e name arguments) 2 None = Inr s
           \<and> call_tool_except e name arguments = Inr [TextContent ''text'' s]"
  using error_result_dumps[of e name arguments] by (auto simp: call_tool_except_def)

lemma handle_response_returns: "\<exists>payload. handle_response r = Inr (status_code r, payload)"
  by (cases "json r") (simp_all add: handle_response_def)

lemma tool_names:
  "map name list_tools = [''balance'', ''payment_methods'', ''billing_info'', ''pay_offer'',
     ''payment_info'', ''create_x402_payment_header'']"
  by (simp add: list_tools_def)

lemma required_simps:
  "required ''balance'' = []"
  "required ''payment_methods'' = []"
  "required ''billing_info'' = []"
  "required ''pay_offer'' = [''offer_id'', ''l402_offer'']"
  "required ''payment_info'' = [''pid'']"
  "required ''create_x402_payment_header'' = [''chain'', ''x402_payload'']"
  by (simp_all add: required_def list_tools_def)

lemma required_unknown:
  fixes name :: string
  shows "name \<notin> set (map tool.name list_tools) \<Longrightarrow> required name = []"
  by (auto simp: required_def list_tools_def)


lemma route_simps:
  "route fs ''balance'' arguments = handled fs Balance"
  "route fs ''payment_methods'' arguments = handled fs Payment_methods"
  "route fs ''billing_info'' arguments = handled fs Billing_info"
  "route fs ''pay_offer'' arguments =
     (case map_of arguments ''offer_id'' of
        None \<Rightarrow> ([], Inl (KeyError ''offer_id''))
      | Some offer_id \<Rightarrow>
          (case map_of arguments ''l402_offer'' of
             None \<Rightarrow> ([], Inl (KeyError ''l402_offer''))
           | Some l402_offer \<Rightarrow> handled fs (Pay_offer offer_id l402_offer)))"
  "route fs ''payment_info'' arguments =
     (case map_of arguments ''pid'' of
        None \<Rightarrow> ([], Inl (KeyError ''pid''))
      | Some pid \<Rightarrow> handled fs (Payment_info pid))"
  "route fs ''create_x402_payment_header'' arguments =
     (case map_of arguments ''chain'' of
        None \<Rightarrow> ([], Inl (KeyError ''chain''))
      | Some chain \<Rightarrow>
          (case map_of arguments ''x402_payload'' of
             None \<Rightarrow> ([], Inl (KeyError ''x402_payload''))
           | Some x402_payload \<Rightarrow> handled fs (Pay_x402_offer x402_payload chain)))"
  by (simp_all add: route_def getitem_def split: option.splits)

lemma route_unknown:
  fixes name :: string
  assumes "name \<notin> set (map tool.name list_tools)"
  shows "route fs name arguments = ([], Inl (ValueError (''Unknown tool: '' @ name)))"
  using assms by (simp add: tool_names route_def)

lemma registered_iff:
  fixes name :: string
  shows "name \<in> set (map tool.name list_tools) \<longleftrightarrow>
    name = ''balance'' \<or> name = ''payment_methods'' \<or> name = ''billing_info''
    \<or> name = ''pay_offer'' \<or> name = ''payment_info'' \<or> name = ''create_x402_payment_header''"
  by (simp only: tool_names list.set insert_iff empty_iff simp_thms)

lemma handled_fst: "fst (handled fs c) = [c]"
  by (simp add: handled_def)

lemma handled_snd_Inl: "snd (handled fs c) = Inl e \<longleftrightarrow> fs c = Inl e"
  using handle_response_returns
  by (auto simp: handled_def split: sum.splits) (metis Inl_Inr_False)

lemma call_tool_try_fst:
  fixes name :: string
  shows "fst (call_tool_try fs name arguments) = fst (route fs name arguments)"
  by (cases "route fs name arguments")
     (auto simp: call_tool_try_def split: sum.splits)

lemma call_tool_fst:
  fixes name :: string
  shows "fst (call_tool fs name arguments) = fst (route fs name arguments)"
  using call_tool_try_fst[of fs name arguments]
  by (cases "call_tool_try fs name arguments")
     (auto simp: call_tool_def split: sum.splits)

lemma call_tool_try_route_Inl:
  fixes name :: string
  assumes "snd (route fs name arguments) = Inl e"
  shows "snd (call_tool_try fs name arguments) = Inl e"
  using assms by (cases "route fs name arguments") (simp add: call_tool_try_def)

lemma call_tool_try_route_Inr:
  fixes name :: string
  assumes "snd (route fs name arguments) = Inr (status, payload)"
  shows "snd (call_tool_try fs name arguments)
    = (case json_dumps (PyList [PyInt status, payload]) 2 (Some str) of
         Inl e \<Rightarrow> Inl e
       | Inr s \<Rightarrow> Inr [TextContent ''text'' s])"
  using assms by (cases "route fs name arguments") (simp add: call_tool_try_def)

lemma call_tool_snd_error:
  fixes name :: string
  assumes "snd (call_tool_try fs name arguments) = Inl e" and "isinstance_Exception e"
  shows "snd (call_tool fs name arguments) = call_tool_except e name arguments"
  using assms by (cases "call_tool_try fs name arguments") (simp add: call_tool_def)

lemma call_tool_snd_escapes:
  fixes name :: string
  assumes "snd (call_tool_try fs name arguments) = Inl e" and "\<not> isinstance_Exception e"
  shows "snd (call_tool fs name arguments) = Inl e"
  using assms by (cases "call_tool_try fs name arguments") (simp add: call_tool_def)

lemma call_tool_snd_success:
  fixes name :: string
  assumes "snd (call_tool_try fs name arguments) = Inr out"
  shows "snd (call_tool fs name arguments) = Inr out"
  using assms by (cases "call_tool_try fs name arguments") (simp add: call_tool_def)

lemma route_failure_iff:
  fixes name :: string
  shows "snd (route fs name arguments) = Inl e \<longleftrightarrow>
    (name \<notin> set (map tool.name list_tools) \<and> e = ValueError (''Unknown tool: '' @ name))
    \<or> (\<exists>k. find (\<lambda>k. map_of arguments k = None) (required name) = Some k \<and> e = KeyError k)
    \<or> (\<exists>c. fst (route fs name arguments) = [c] \<and> fs c = Inl e)"
proof (cases "name \<in> set (map tool.name list_tools)")
  case False
  then show ?thesis
    by (simp only: route_unknown[OF False] required_unknown[OF False]) auto
next
  case True
  then consider "name = ''balance''" | "name = ''payment_methods''" | "name = ''billing_info''"
    | "name = ''pay_offer''" | "name = ''payment_info''" | "name = ''create_x402_payment_header''"
    unfolding registered_iff by argo
  then show ?thesis
  proof cases
    case 1
    with True show ?thesis
      by (simp add: route_simps required_simps handled_fst handled_snd_Inl)
  next
    case 2
    with True show ?thesis
      by (simp add: route_simps required_simps handled_fst handled_snd_Inl)
  next
    case 3
    with True show ?thesis
      by (simp add: route_simps required_simps handled_fst handled_snd_Inl)
  next
    case 4
    with True show ?thesis
      by (auto simp: route_simps required_simps handled_fst handled_snd_Inl split: option.splits)
  next
    case 5
    with True show ?thesis
      by (auto simp: route_simps required_simps handled_fst handled_snd_Inl split: option.splits)
  next
    case 6
    with True show ?thesis
      by (auto simp: route_simps required_simps handled_fst handled_snd_Inl split: option.splits)
  qed
qed

lemma route_missing:
  fixes name :: string
  assumes "find (\<lambda>k. map_of arguments k = None) (required name) = Some k"
  shows "route fs name arguments = ([], Inl (KeyError k))"
proof (cases "name \<in> set (map tool.name list_tools)")
  case False
  with assms show ?thesis by (simp add: required_unknown)
next
  case True
  then consider "name = ''balance''" | "name = ''payment_methods''" | "name = ''billing_info''"
    | "name = ''pay_offer''" | "name = ''payment_info''" | "name = ''create_x402_payment_header''"
    unfolding registered_iff by argo
  then show ?thesis
  proof cases
    case 1
    with assms show ?thesis by (simp add: required_simps)
  next
    case 2
    with assms show ?thesis by (simp add: required_simps)
  next
    case 3
    with assms show ?thesis by (simp add: required_simps)
  next
    case 4
    with assms show ?thesis
      by (auto simp: route_simps required_simps split: option.splits if_splits)
  next
    case 5
    with assms show ?thesis
      by (auto simp: route_simps required_simps split: option.splits if_splits)
  next
    case 6
    with assms show ?thesis
      by (auto simp: route_simps required_simps split: option.splits if_splits)
  qed
qed

lemma route_called:
  fixes name :: string
  assumes "fst (route fs name arguments) = [c]"
  shows "route fs name arguments = handled fs c"
proof (cases "name \<in> set (map tool.name list_tools)")
  case False
  with assms show ?thesis by (simp add: route_unknown)
next
  case True
  then consider "name = ''balance''" | "name = ''payment_methods''" | "name = ''billing_info''"
    | "name = ''pay_offer''" | "name = ''payment_info''" | "name = ''create_x402_payment_header''"
    unfolding registered_iff by argo
  then show ?thesis
  proof cases
    case 1
    with assms show ?thesis by (simp add: route_simps handled_fst)
  next
    case 2
    with assms show ?thesis by (simp add: route_simps handled_fst)
  next
    case 3
    with assms show ?thesis by (simp add: route_simps handled_fst)
  next
    case 4
    with assms show ?thesis
      by (auto simp: route_simps handled_fst split: option.splits)
  next
    case 5
    with assms show ?thesis
      by (auto simp: route_simps handled_fst split: option.splits)
  next
    case 6
    with assms show ?thesis
      by (auto simp: route_simps handled_fst split: option.splits)
  qed
qed

lemma route_no_call_iff:
  fixes name :: string
  shows "fst (route fs name arguments) = [] \<longleftrightarrow>
    name \<notin> set (map tool.name list_tools)
    \<or> find (\<lambda>k. map_of arguments k = None) (required name) \<noteq> None"
proof (cases "name \<in> set (map tool.name list_tools)")
  case False
  then show ?thesis by (simp add: route_unknown)
next
  case True
  then consider "name = ''balance''" | "name = ''payment_methods''" | "name = ''billing_info''"
    | "name = ''pay_offer''" | "name = ''payment_info''" | "name = ''create_x402_payment_header''"
    unfolding registered_iff by argo
  then show ?thesis
  proof cases
    case 1
    with True show ?thesis by (simp add: route_simps required_simps handled_fst)
  next
    case 2
    with True show ?thesis by (simp add: route_simps required_simps handled_fst)
  next
    case 3
    with True show ?thesis by (simp add: route_simps required_simps handled_fst)
  next
    case 4
    with True show ?thesis
      by (auto simp: route_simps required_simps handled_fst split: option.splits)
  next
    case 5
    with True show ?thesis
      by (auto simp: route_simps required_simps handled_fst split: option.splits)
  next
    case 6
    with True show ?thesis
      by (auto simp: route_simps required_simps handled_fst split: option.splits)
  qed
qed

lemma route_agree:
  fixes name :: string
  assumes "\<And>k. k \<in> set (required name) \<Longrightarrow> map_of a1 k = map_of a2 k"
  shows "route fs name a1 = route fs name a2"
proof (cases "name \<in> set (map tool.name list_tools)")
  case False
  then show ?thesis by (simp add: route_unknown)
next
  case True
  then consider "name = ''balance''" | "name = ''payment_methods''" | "name = ''billing_info''"
    | "name = ''pay_offer''" | "name = ''payment_info''" | "name = ''create_x402_payment_header''"
    unfolding registered_iff by argo
  then show ?thesis
  proof cases
    case 1
    then show ?thesis by (simp add: route_simps)
  next
    case 2
    then show ?thesis by (simp add: route_simps)
  next
    case 3
    then show ?thesis by (simp add: route_simps)
  next
    case 4
    with assms[of "''offer_id''"] assms[of "''l402_offer''"] show ?thesis
      by (simp add: route_simps required_simps split: option.splits)
  next
    case 5
    with assms[of "''pid''"] show ?thesis
      by (simp add: route_simps required_simps)
  next
    case 6
    with assms[of "''chain''"] assms[of "''x402_payload''"] show ?thesis
      by (simp add: route_simps required_simps split: option.splits)
  qed
qed

lemma call_tool_try_route:
  fixes name :: string
  assumes "route fs name a1 = route fs name a2"
  shows "call_tool_try fs name a1 = call_tool_try fs name a2"
  using assms by (simp add: call_tool_try_def)


lemma Inr_unique: "x = Inr a \<Longrightarrow> x = Inr b \<Longrightarrow> a = b"
  by simp

lemma route_calls:
  fixes name :: string
  shows "fst (route fs name arguments) = [] \<or> (\<exists>c. fst (route fs name arguments) = [c])"
proof (cases "name \<in> set (map tool.name list_tools)")
  case False
  then show ?thesis by (simp add: route_unknown)
next
  case True
  then consider "name = ''balance''" | "name = ''payment_methods''" | "name = ''billing_info''"
    | "name = ''pay_offer''" | "name = ''payment_info''" | "name = ''create_x402_payment_header''"
    unfolding registered_iff by argo
  then show ?thesis
  proof cases
    case 1
    then show ?thesis by (simp add: route_simps handled_fst)
  next
    case 2
    then show ?thesis by (simp add: route_simps handled_fst)
  next
    case 3
    then show ?thesis by (simp add: route_simps handled_fst)
  next
    case 4
    then show ?thesis by (simp add: route_simps handled_fst split: option.splits)
  next
    case 5
    then show ?thesis by (simp add: route_simps handled_fst split: option.splits)
  next
    case 6
    then show ?thesis by (simp add: route_simps handled_fst split: option.splits)
  qed
qed

lemma dumps_result:
  assumes "iterencode 2 (Some str) 1 payload = Inr p"
  shows "json_dumps (PyList [PyInt status, payload]) 2 (Some str)
    = Inr (text_lines [''['', ''  '' @ int_repr status @ '','', ''  '' @ p, '']''])"
  using assms
  by (simp add: json_dumps_def container_def newline_indent_def text_lines_def numeral_2_eq_2)

lemma dumps_result_raises:
  assumes "iterencode 2 (Some str) 1 payload = Inl e"
  shows "json_dumps (PyList [PyInt status, payload]) 2 (Some str) = Inl e"
  using assms by (simp add: json_dumps_def)

lemma dumps_other:
  "json_dumps (PyOther obj) indent (Some f)
    = (case f obj of Inl e \<Rightarrow> Inl e | Inr s \<Rightarrow> Inr (quoted (concat (map escape_char s))))"
  by (simp add: json_dumps_def encode_basestring_ascii_def quoted_def split: sum.splits)

lemma sample_rendering_eq:
  "json_dumps (PyList [PyInt 200, sample_value]) 2 (Some str) = Inr sample_rendering"
  by code_simp

lemma route_Inr_iff:
  fixes name :: string
  shows "snd (route fs name arguments) = Inr sp \<longleftrightarrow>
    (\<exists>c r. fst (route fs name arguments) = [c] \<and> fs c = Inr r \<and> handle_response r = Inr sp)"
proof
  assume a: "snd (route fs name arguments) = Inr sp"
  have "fst (route fs name arguments) \<noteq> []"
  proof
    assume "fst (route fs name arguments) = []"
    then have "name \<notin> set (map tool.name list_tools)
      \<or> find (\<lambda>k. map_of arguments k = None) (required name) \<noteq> None"
      by (simp only: route_no_call_iff)
    then have "\<exists>e. route fs name arguments = ([], Inl e)"
      using route_unknown route_missing by (metis not_Some_eq)
    with a show False by auto
  qed
  then obtain c where c: "fst (route fs name arguments) = [c]"
    using route_calls[of fs name arguments] by blast
  then have "route fs name arguments = handled fs c" by (rule route_called)
  with a have "(case fs c of Inl e \<Rightarrow> Inl e | Inr response \<Rightarrow> handle_response response) = Inr sp"
    by (simp add: handled_def)
  then obtain r where "fs c = Inr r" and "handle_response r = Inr sp"
    by (cases "fs c") simp_all
  with c show "\<exists>c r. fst (route fs name arguments) = [c] \<and> fs c = Inr r \<and> handle_response r = Inr sp"
    by blast
next
  assume "\<exists>c r. fst (route fs name arguments) = [c] \<and> fs c = Inr r \<and> handle_response r = Inr sp"
  then obtain c r where c: "fst (route fs name arguments) = [c]"
    and r: "fs c = Inr r" "handle_response r = Inr sp" by blast
  from c have "route fs name arguments = handled fs c" by (rule route_called)
  then show "snd (route fs name arguments) = Inr sp"
    by (simp add: handled_def r)
qed

lemma call_tool_try_failure_iff:
  fixes name :: string
  shows "snd (call_tool_try fs name arguments) = Inl e \<longleftrightarrow>
    (name \<notin> set (map tool.name list_tools) \<and> e = ValueError (''Unknown tool: '' @ name))
    \<or> (\<exists>k. find (\<lambda>k. map_of arguments k = None) (required name) = Some k \<and> e = KeyError k)
    \<or> (\<exists>c. fst (route fs name arguments) = [c] \<and> fs c = Inl e)
    \<or> (\<exists>c r status payload.
          fst (route fs name arguments) = [c] \<and> fs c = Inr r
          \<and> handle_response r = Inr (status, payload)
          \<and> json_dumps (PyList [PyInt status, payload]) 2 (Some str) = Inl e)"
proof (cases "snd (route fs name arguments)")
  case (Inl e')
  then have t: "snd (call_tool_try fs name arguments) = Inl e'"
    by (rule call_tool_try_route_Inl)
  have no: "\<not> (\<exists>c r status payload.
          fst (route fs name arguments) = [c] \<and> fs c = Inr r
          \<and> handle_response r = Inr (status, payload)
          \<and> json_dumps (PyList [PyInt status, payload]) 2 (Some str) = Inl e)"
    using Inl route_Inr_iff[of fs name arguments] by (metis Inl_Inr_False)
  have "e' = e \<longleftrightarrow> snd (route fs name arguments) = Inl e"
    using Inl by auto
  then show ?thesis
    unfolding t using no route_failure_iff[of fs name arguments e] by auto
next
  case (Inr sp)
  obtain status payload where sp: "sp = (status, payload)" by (cases sp)
  have t: "snd (call_tool_try fs name arguments)
    = (case json_dumps (PyList [PyInt status, payload]) 2 (Some str) of
         Inl e \<Rightarrow> Inl e
       | Inr s \<Rightarrow> Inr [TextContent ''text'' s])"
    using Inr sp by (intro call_tool_try_route_Inr) simp
  have three: "\<not> ((name \<notin> set (map tool.name list_tools) \<and> e = ValueError (''Unknown tool: '' @ name))
    \<or> (\<exists>k. find (\<lambda>k. map_of arguments k = None) (required name) = Some k \<and> e = KeyError k)
    \<or> (\<exists>c. fst (route fs name arguments) = [c] \<and> fs c = Inl e))"
    using Inr route_failure_iff[of fs name arguments e] by simp
  have four: "(\<exists>c r status' payload'.
          fst (route fs name arguments) = [c] \<and> fs c = Inr r
          \<and> handle_response r = Inr (status', payload')
          \<and> json_dumps (PyList [PyInt status', payload']) 2 (Some str) = Inl e)
      \<longleftrightarrow> json_dumps (PyList [PyInt status, payload]) 2 (Some str) = Inl e"
  proof
    assume "\<exists>c r status' payload'.
          fst (route fs name arguments) = [c] \<and> fs c = Inr r
          \<and> handle_response r = Inr (status', payload')
          \<and> json_dumps (PyList [PyInt status', payload']) 2 (Some str) = Inl e"
    then obtain c r status' payload' where
      h: "fst (route fs name arguments) = [c]" "fs c = Inr r"
         "handle_response r = Inr (status', payload')"
      and d: "json_dumps (PyList [PyInt status', payload']) 2 (Some str) = Inl e"
      by blast
    from h have "snd (route fs name arguments) = Inr (status', payload')"
      unfolding route_Inr_iff by blast
    with Inr sp have "status' = status" "payload' = payload" by simp_all
    with d show "json_dumps (PyList [PyInt status, payload]) 2 (Some str) = Inl e" by simp
  next
    assume d: "json_dumps (PyList [PyInt status, payload]) 2 (Some str) = Inl e"
    from Inr sp obtain c r where "fst (route fs name arguments) = [c]" "fs c = Inr r"
      "handle_response r = Inr (status, payload)"
      unfolding route_Inr_iff by blast
    with d show "\<exists>c r status' payload'.
          fst (route fs name arguments) = [c] \<and> fs c = Inr r
          \<and> handle_response r = Inr (status', payload')
          \<and> json_dumps (PyList [PyInt status', payload']) 2 (Some str) = Inl e"
      by blast
  qed
  have "snd (call_tool_try fs name arguments) = Inl e
    \<longleftrightarrow> json_dumps (PyList [PyInt status, payload]) 2 (Some str) = Inl e"
    unfolding t by (cases "json_dumps (PyList [PyInt status, payload]) 2 (Some str)") simp_all
  with three four show ?thesis by blast
qed



section \<open>Properties\<close>

text \<open>
  C1, as stated, fails: \<^verbatim>\<open>except Exception\<close> does not take an exception that is
  not an instance of \<^verbatim>\<open>Exception\<close>. When the client raises
  \<^verbatim>\<open>KeyboardInterrupt\<close>, the exception leaves \<^verbatim>\<open>call_tool\<close> and no
  envelope is returned.
\<close>

theorem keyboard_interrupt_escapes:
  "backend_interrupted Balance = Inl KeyboardInterrupt
   \<and> \<not> isinstance_Exception KeyboardInterrupt
   \<and> call_tool backend_interrupted ''balance'' [] = ([Balance], Inl KeyboardInterrupt)"
  by code_simp

text \<open>
  C1, amended. Every instance of \<^verbatim>\<open>Exception\<close> that the \<^verbatim>\<open>try\<close> block of
  \<^verbatim>\<open>call_tool\<close> raises is caught, and the invocation returns one text content: the
  rendering of the dict with \<^verbatim>\<open>error\<close> (\<^verbatim>\<open>str(e)\<close>), \<^verbatim>\<open>tool\<close>
  (the name) and \<^verbatim>\<open>arguments\<close> (the arguments). An exception that is not an
  instance of \<^verbatim>\<open>Exception\<close> leaves the function. The block raises in four cases
  only: the name is not registered; a required key is absent (the first absent one, in the
  order of the schema, is the key of the \<^verbatim>\<open>KeyError\<close>); the client raised; or the
  client returned a response and the rendering of its status and payload raised.
\<close>

theorem call_tool_catches_exceptions:
  fixes name :: string
  shows "(\<forall>e. snd (call_tool_try fs name arguments) = Inl e \<longrightarrow> isinstance_Exception e \<longrightarrow>
          (\<exists>s. json_dumps (error_result e name arguments) 2 None = Inr s
             \<and> snd (call_tool fs name arguments) = Inr [TextContent ''text'' s]))
    \<and> (\<forall>e. snd (call_tool_try fs name arguments) = Inl e \<longrightarrow> \<not> isinstance_Exception e \<longrightarrow>
          snd (call_tool fs name arguments) = Inl e)
    \<and> (\<forall>out. snd (call_tool_try fs name arguments) = Inr out \<longrightarrow>
          (\<exists>s. out = [TextContent ''text'' s]) \<and> snd (call_tool fs name arguments) = Inr out)
    \<and> (\<forall>e. snd (call_tool_try fs name arguments) = Inl e \<longleftrightarrow>
          (name \<notin> set (map tool.name list_tools) \<and> e = ValueError (''Unknown tool: '' @ name))
          \<or> (\<exists>k. find (\<lambda>k. map_of arguments k = None) (required name) = Some k \<and> e = KeyError k)
          \<or> (\<exists>c. fst (call_tool fs name arguments) = [c] \<and> fs c = Inl e)
          \<or> (\<exists>c r status payload.
                fst (call_tool fs name arguments) = [c] \<and> fs c = Inr r
                \<and> handle_response r = Inr (status, payload)
                \<and> json_dumps (PyList [PyInt status, payload]) 2 (Some str) = Inl e))"
proof (intro conjI allI impI)
  fix e
  assume "snd (call_tool_try fs name arguments) = Inl e" and "isinstance_Exception e"
  then have "snd (call_tool fs name arguments) = call_tool_except e name arguments"
    by (rule call_tool_snd_error)
  then show "\<exists>s. json_dumps (error_result e name arguments) 2 None = Inr s
             \<and> snd (call_tool fs name arguments) = Inr [TextContent ''text'' s]"
    using call_tool_except_returns[of e name arguments] by auto
next
  fix e
  assume "snd (call_tool_try fs name arguments) = Inl e" and "\<not> isinstance_Exception e"
  then show "snd (call_tool fs name arguments) = Inl e"
    by (rule call_tool_snd_escapes)
next
  fix out
  assume a: "snd (call_tool_try fs name arguments) = Inr out"
  show "\<exists>s. out = [TextContent ''text'' s]"
  proof (cases "snd (route fs name arguments)")
    case (Inl e)
    then have "snd (call_tool_try fs name arguments) = Inl e" by (rule call_tool_try_route_Inl)
    with a show ?thesis by simp
  next
    case (Inr sp)
    obtain status payload where "sp = (status, payload)" by (cases sp)
    with Inr have "snd (call_tool_try fs name arguments)
      = (case json_dumps (PyList [PyInt status, payload]) 2 (Some str) of
           Inl e \<Rightarrow> Inl e
         | Inr s \<Rightarrow> Inr [TextContent ''text'' s])"
      by (intro call_tool_try_route_Inr) simp
    with a show ?thesis
      by (cases "json_dumps (PyList [PyInt status, payload]) 2 (Some str)") auto
  qed
next
  fix out
  assume "snd (call_tool_try fs name arguments) = Inr out"
  then show "snd (call_tool fs name arguments) = Inr out"
    by (rule call_tool_snd_success)
next
  fix e
  show "snd (call_tool_try fs name arguments) = Inl e \<longleftrightarrow>
          (name \<notin> set (map tool.name list_tools) \<and> e = ValueError (''Unknown tool: '' @ name))
          \<or> (\<exists>k. find (\<lambda>k. map_of arguments k = None) (required name) = Some k \<and> e = KeyError k)
          \<or> (\<exists>c. fst (call_tool fs name arguments) = [c] \<and> fs c = Inl e)
          \<or> (\<exists>c r status payload.
                fst (call_tool fs name arguments) = [c] \<and> fs c = Inr r
                \<and> handle_response r = Inr (status, payload)
                \<and> json_dumps (PyList [PyInt status, payload]) 2 (Some str) = Inl e)"
    unfolding call_tool_fst by (rule call_tool_try_failure_iff)
qed

theorem call_tool_catches_exceptions_witness:
  "snd (call_tool_try backend_down ''payment_info'' [(''pid'', JStr ''abc'')])
     = Inl (BackendError ''connection refused'')
   \<and> isinstance_Exception (BackendError ''connection refused'')
   \<and> snd (call_tool backend_down ''payment_info'' [(''pid'', JStr ''abc'')])
     = Inr [TextContent ''text'' (text_lines
         [''{'',
          ''  '' @ quoted ''error'' @ '': '' @ quoted ''connection refused'' @ '','',
          ''  '' @ quoted ''tool'' @ '': '' @ quoted ''payment_info'' @ '','',
          ''  '' @ quoted ''arguments'' @ '': {'',
          ''    '' @ quoted ''pid'' @ '': '' @ quoted ''abc'',
          ''  }'',
          ''}''])]
   \<and> snd (call_tool_try backend_interrupted ''payment_info'' [(''pid'', JStr ''abc'')])
     = Inl KeyboardInterrupt
   \<and> snd (call_tool backend_interrupted ''payment_info'' [(''pid'', JStr ''abc'')])
     = Inl KeyboardInterrupt"
proof -
  let ?args = "[(''pid'', JStr ''abc'')]"
  have t: "snd (call_tool_try backend_down ''payment_info'' ?args)
     = Inl (BackendError ''connection refused'')"
    by code_simp
  have i: "isinstance_Exception (BackendError ''connection refused'')"
    by simp
  have d: "json_dumps (error_result (BackendError ''connection refused'') ''payment_info'' ?args) 2 None
     = Inr (text_lines
         [''{'',
          ''  '' @ quoted ''error'' @ '': '' @ quoted ''connection refused'' @ '','',
          ''  '' @ quoted ''tool'' @ '': '' @ quoted ''payment_info'' @ '','',
          ''  '' @ quoted ''arguments'' @ '': {'',
          ''    '' @ quoted ''pid'' @ '': '' @ quoted ''abc'',
          ''  }'',
          ''}''])"
    by code_simp
  from call_tool_catches_exceptions[of backend_down "''payment_info''" ?args,
      THEN conjunct1, rule_format, OF t i]
  obtain s where s1: "json_dumps (error_result (BackendError ''connection refused'') ''payment_info'' ?args) 2 None = Inr s"
    and s2: "snd (call_tool backend_down ''payment_info'' ?args) = Inr [TextContent ''text'' s]"
    by (elim exE conjE)
  have t': "snd (call_tool_try backend_interrupted ''payment_info'' ?args) = Inl KeyboardInterrupt"
    by code_simp
  have i': "\<not> isinstance_Exception KeyboardInterrupt"
    by simp
  have e: "snd (call_tool backend_interrupted ''payment_info'' ?args) = Inl KeyboardInterrupt"
    by (rule call_tool_catches_exceptions[of backend_interrupted "''payment_info''" ?args,
      THEN conjunct2, THEN conjunct1, rule_format, OF t' i'])
  from s2 show ?thesis
    unfolding Inr_unique[OF s1 d] using t i t' e by (intro conjI)
qed

text \<open>
  C2. \<^verbatim>\<open>list_tools\<close> is one fixed list: six descriptors, named
  \<^verbatim>\<open>balance\<close>, \<^verbatim>\<open>payment_methods\<close>, \<^verbatim>\<open>billing_info\<close>,
  \<^verbatim>\<open>pay_offer\<close>, \<^verbatim>\<open>payment_info\<close> and
  \<^verbatim>\<open>create_x402_payment_header\<close> in this order, one descriptor for each name,
  none with an empty description. It takes no argument and calls nothing.
\<close>

theorem list_tools_registry:
  "map name list_tools =
     [''balance'', ''payment_methods'', ''billing_info'', ''pay_offer'', ''payment_info'',
      ''create_x402_payment_header'']
   \<and> length list_tools = 6
   \<and> distinct (map name list_tools)
   \<and> map (\<lambda>n. length (filter (\<lambda>t. name t = n) list_tools))
        [''balance'', ''payment_methods'', ''billing_info'', ''pay_offer'', ''payment_info'',
         ''create_x402_payment_header'']
      = [1, 1, 1, 1, 1, 1]
   \<and> [] \<notin> set (map description list_tools)"
  by (simp add: list_tools_def)

text \<open>
  C3. For a response with status \<open>s\<close> and body \<open>b\<close>, the normalizer returns \<open>s\<close>
  with the decoded body when \<^verbatim>\<open>json()\<close> returns, and \<open>s\<close> with \<open>b\<close> as text
  when \<^verbatim>\<open>json()\<close> raises, whatever it raises; it never raises itself. The body
  \<^verbatim>\<open>{"balance": 100}\<close> with status 200 gives the decoded object, and the body
  \<^verbatim>\<open>not json\<close> with status 500 gives the text.
\<close>

theorem handle_response_normalizes:
  "handle_response (Response s b (Inr parsed)) = Inr (s, parsed)
   \<and> handle_response (Response s b (Inl e)) = Inr (s, PyStr b)
   \<and> (\<exists>payload. handle_response r = Inr (status_code r, payload))
   \<and> handle_response (Response 200 ([CHR 0x7B, CHR 0x22] @ ''balance'' @ [CHR 0x22] @ '': 100}'')
        (Inr (PyDict [(KStr ''balance'', PyInt 100)])))
       = Inr (200, PyDict [(KStr ''balance'', PyInt 100)])
   \<and> handle_response (Response 500 ''not json'' (Inl (ValueError ''Expecting value'')))
       = Inr (500, PyStr ''not json'')"
  by (cases r; cases "json r") (simp_all add: handle_response_def)





text \<open>
  C6. Each tool name goes to its own operation of the client, with the arguments in the
  order the source passes them: \<^verbatim>\<open>balance\<close>, \<^verbatim>\<open>payment_methods\<close> and
  \<^verbatim>\<open>billing_info\<close> with none, \<^verbatim>\<open>pay_offer\<close> with the offer id and then
  the offer, \<^verbatim>\<open>payment_info\<close> with the payment id, and
  \<^verbatim>\<open>create_x402_payment_header\<close> to \<^verbatim>\<open>pay_x402_offer\<close> with the payload
  before the chain. An invocation makes at most one call, and its result is the normalized
  response of that call.
\<close>

theorem routing:
  "fst (call_tool fs ''balance'' arguments) = [Balance]
   \<and> fst (call_tool fs ''payment_methods'' arguments) = [Payment_methods]
   \<and> fst (call_tool fs ''billing_info'' arguments) = [Billing_info]
   \<and> (map_of arguments ''offer_id'' = Some offer_id \<longrightarrow>
        map_of arguments ''l402_offer'' = Some l402_offer \<longrightarrow>
        fst (call_tool fs ''pay_offer'' arguments) = [Pay_offer offer_id l402_offer])
   \<and> (map_of arguments ''pid'' = Some pid \<longrightarrow>
        fst (call_tool fs ''payment_info'' arguments) = [Payment_info pid])
   \<and> (map_of arguments ''chain'' = Some chain \<longrightarrow>
        map_of arguments ''x402_payload'' = Some x402_payload \<longrightarrow>
        fst (call_tool fs ''create_x402_payment_header'' arguments)
          = [Pay_x402_offer x402_payload chain])
   \<and> (\<forall>tool_name c. fst (call_tool fs tool_name arguments) = [c] \<longrightarrow>
        route fs tool_name arguments = ([c], case fs c of Inl e \<Rightarrow> Inl e | Inr response \<Rightarrow> handle_response response))
   \<and> (\<forall>tool_name. length (fst (call_tool fs tool_name arguments)) \<le> 1)"
proof (intro conjI allI impI)
  fix tool_name c
  assume "fst (call_tool fs tool_name arguments) = [c]"
  then have "route fs tool_name arguments = handled fs c"
    unfolding call_tool_fst by (rule route_called)
  then show "route fs tool_name arguments
    = ([c], case fs c of Inl e \<Rightarrow> Inl e | Inr response \<Rightarrow> handle_response response)"
    by (simp add: handled_def)
next
  fix tool_name
  show "length (fst (call_tool fs tool_name arguments)) \<le> 1"
    using route_calls[of fs tool_name arguments] unfolding call_tool_fst by auto
qed (simp_all add: call_tool_fst route_simps handled_fst)

theorem routing_witness:
  "map_of [(''chain'', JStr ''base''), (''x402_payload'', x402_payload_min)] ''chain'' = Some (JStr ''base'')
   \<and> map_of [(''chain'', JStr ''base''), (''x402_payload'', x402_payload_min)] ''x402_payload'' = Some x402_payload_min
   \<and> fst (call_tool backend_ok ''create_x402_payment_header''
            [(''chain'', JStr ''base''), (''x402_payload'', x402_payload_min)])
      = [Pay_x402_offer x402_payload_min (JStr ''base'')]
   \<and> route backend_ok ''create_x402_payment_header''
            [(''chain'', JStr ''base''), (''x402_payload'', x402_payload_min)]
      = ([Pay_x402_offer x402_payload_min (JStr ''base'')],
         Inr (200, PyDict [(KStr ''balance'', PyInt 100)]))"
proof -
  let ?args = "[(''chain'', JStr ''base''), (''x402_payload'', x402_payload_min)]"
  have a: "map_of ?args ''chain'' = Some (JStr ''base'')" by simp
  have b: "map_of ?args ''x402_payload'' = Some x402_payload_min" by simp
  note r = routing[of backend_ok ?args _ _ _ "JStr ''base''" x402_payload_min]
  have c: "fst (call_tool backend_ok ''create_x402_payment_header'' ?args)
      = [Pay_x402_offer x402_payload_min (JStr ''base'')]"
    by (rule r[THEN conjunct2, THEN conjunct2, THEN conjunct2, THEN conjunct2, THEN conjunct2,
          THEN conjunct1, rule_format, OF a b])
  have "route backend_ok ''create_x402_payment_header'' ?args
      = ([Pay_x402_offer x402_payload_min (JStr ''base'')],
         case backend_ok (Pay_x402_offer x402_payload_min (JStr ''base'')) of
           Inl e \<Rightarrow> Inl e | Inr response \<Rightarrow> handle_response response)"
    by (rule r[THEN conjunct2, THEN conjunct2, THEN conjunct2, THEN conjunct2, THEN conjunct2,
          THEN conjunct2, THEN conjunct1, rule_format, OF c])
  then have "route backend_ok ''create_x402_payment_header'' ?args
      = ([Pay_x402_offer x402_payload_min (JStr ''base'')],
         Inr (200, PyDict [(KStr ''balance'', PyInt 100)]))"
    by (simp add: backend_ok_def handle_response_def)
  with a b c show ?thesis by (intro conjI)
qed

text \<open>
  C7, as stated, fails: \<^verbatim>\<open>default=str\<close> is applied to values, not to dict keys.
  The client returns a response with status 200 whose body decodes to a dict with a tuple
  as a key; the encoder raises \<^verbatim>\<open>TypeError\<close> instead of stringifying, and the
  invocation returns the error envelope, not the rendering of the status and the payload.
\<close>

theorem tuple_key_raises_in_rendering:
  "backend_tuple_key Balance
     = Inr (Response 200 ''{}'' (Inr (PyDict [(KOther ''tuple'', PyInt 100)])))
   \<and> handle_response (Response 200 ''{}'' (Inr (PyDict [(KOther ''tuple'', PyInt 100)])))
     = Inr (200, PyDict [(KOther ''tuple'', PyInt 100)])
   \<and> json_dumps (PyList [PyInt 200, PyDict [(KOther ''tuple'', PyInt 100)]]) 2 (Some str)
     = Inl (TypeError ''keys must be str, int, float, bool or None, not tuple'')
   \<and> call_tool backend_tuple_key ''balance'' []
     = ([Balance],
        Inr [TextContent ''text'' (text_lines
          [''{'',
           ''  '' @ quoted ''error'' @ '': ''
             @ quoted ''keys must be str, int, float, bool or None, not tuple'' @ '','',
           ''  '' @ quoted ''tool'' @ '': '' @ quoted ''balance'' @ '','',
           ''  '' @ quoted ''arguments'' @ '': {}'',
           ''}''])])"
  by code_simp

text \<open>
  C7, amended. When the client returns a response, \<^verbatim>\<open>call_tool\<close> renders the pair
  of its status and its normalized payload with \<^verbatim>\<open>json.dumps\<close>,
  \<^verbatim>\<open>indent=2\<close> and \<^verbatim>\<open>default=str\<close>. If the payload is one that the encoder
  renders (its dict keys are strings, numbers, booleans or \<^verbatim>\<open>None\<close>, it has no
  circular reference, and \<^verbatim>\<open>str\<close> returns on its objects), the text of the single
  content item is that rendering: an array whose items, the status and the payload, stand
  on lines of their own two spaces in, with an object the encoder does not know rendered as
  the JSON string of its \<^verbatim>\<open>str\<close>. Otherwise the encoder raises, and the exception
  is handled as any exception of the \<^verbatim>\<open>try\<close> block is. The last conjunct fixes the
  rendering on a value with every kind of key, value and escaped character.
\<close>

theorem success_rendering:
  fixes name :: string
  assumes "fst (call_tool fs name arguments) = [c]" and "fs c = Inr r"
  shows "(\<exists>payload.
            handle_response r = Inr (status_code r, payload)
          \<and> (encodable payload \<longrightarrow>
               (\<exists>p. iterencode 2 (Some str) 1 payload = Inr p
                  \<and> json_dumps (PyList [PyInt (status_code r), payload]) 2 (Some str)
                      = Inr (text_lines [''['', ''  '' @ int_repr (status_code r) @ '','', ''  '' @ p, '']''])
                  \<and> snd (call_tool fs name arguments)
                      = Inr [TextContent ''text''
                          (text_lines [''['', ''  '' @ int_repr (status_code r) @ '','', ''  '' @ p, '']''])]))
          \<and> (\<not> encodable payload \<longrightarrow>
               (\<exists>e. json_dumps (PyList [PyInt (status_code r), payload]) 2 (Some str) = Inl e
                  \<and> snd (call_tool_try fs name arguments) = Inl e
                  \<and> snd (call_tool fs name arguments)
                      = (if isinstance_Exception e then call_tool_except e name arguments
                         else Inl e))))
    \<and> ((\<exists>s. json_dumps v 2 (Some str) = Inr s) \<longleftrightarrow> encodable v)
    \<and> json_dumps (PyOther obj) 2 (Some str)
        = (case str obj of
             Inl e \<Rightarrow> Inl e
           | Inr s \<Rightarrow> Inr (quoted (concat (map escape_char s))))
    \<and> json_dumps (PyList [PyInt 200, sample_value]) 2 (Some str) = Inr sample_rendering"
proof (intro conjI)
  obtain payload where h: "handle_response r = Inr (status_code r, payload)"
    using handle_response_returns by blast
  have "route fs name arguments = handled fs c"
    using assms(1) unfolding call_tool_fst by (rule route_called)
  then have route: "snd (route fs name arguments) = Inr (status_code r, payload)"
    by (simp add: handled_def assms(2) h)
  have tr: "snd (call_tool_try fs name arguments)
    = (case json_dumps (PyList [PyInt (status_code r), payload]) 2 (Some str) of
         Inl e \<Rightarrow> Inl e
       | Inr s \<Rightarrow> Inr [TextContent ''text'' s])"
    using route by (rule call_tool_try_route_Inr)
  have yes: "\<exists>p. iterencode 2 (Some str) 1 payload = Inr p
                  \<and> json_dumps (PyList [PyInt (status_code r), payload]) 2 (Some str)
                      = Inr (text_lines [''['', ''  '' @ int_repr (status_code r) @ '','', ''  '' @ p, '']''])
                  \<and> snd (call_tool fs name arguments)
                      = Inr [TextContent ''text''
                          (text_lines [''['', ''  '' @ int_repr (status_code r) @ '','', ''  '' @ p, '']''])]"
    if enc: "encodable payload"
  proof -
    obtain p where p: "iterencode 2 (Some str) 1 payload = Inr p"
      using enc encodable_iff[of 2 1 payload] by blast
    let ?text = "text_lines [''['', ''  '' @ int_repr (status_code r) @ '','', ''  '' @ p, '']'']"
    have d: "json_dumps (PyList [PyInt (status_code r), payload]) 2 (Some str) = Inr ?text"
      using p by (rule dumps_result)
    have "snd (call_tool_try fs name arguments) = Inr [TextContent ''text'' ?text]"
      unfolding tr by (simp add: d)
    then have "snd (call_tool fs name arguments) = Inr [TextContent ''text'' ?text]"
      by (rule call_tool_snd_success)
    with p d show ?thesis by blast
  qed
  have no: "\<exists>e. json_dumps (PyList [PyInt (status_code r), payload]) 2 (Some str) = Inl e
                  \<and> snd (call_tool_try fs name arguments) = Inl e
                  \<and> snd (call_tool fs name arguments)
                      = (if isinstance_Exception e then call_tool_except e name arguments
                         else Inl e)"
    if nenc: "\<not> encodable payload"
  proof -
    obtain e where e: "iterencode 2 (Some str) 1 payload = Inl e"
      using nenc encodable_iff[of 2 1 payload] by (cases "iterencode 2 (Some str) 1 payload") auto
    then have d: "json_dumps (PyList [PyInt (status_code r), payload]) 2 (Some str) = Inl e"
      by (rule dumps_result_raises)
    have t: "snd (call_tool_try fs name arguments) = Inl e"
      unfolding tr by (simp add: d)
    have "snd (call_tool fs name arguments)
      = (if isinstance_Exception e then call_tool_except e name arguments else Inl e)"
      using t call_tool_snd_error[of fs name arguments e] call_tool_snd_escapes[of fs name arguments e]
      by (cases "isinstance_Exception e") simp_all
    with d t show ?thesis by blast
  qed
  from h yes no show "\<exists>payload.
            handle_response r = Inr (status_code r, payload)
          \<and> (encodable payload \<longrightarrow>
               (\<exists>p. iterencode 2 (Some str) 1 payload = Inr p
                  \<and> json_dumps (PyList [PyInt (status_code r), payload]) 2 (Some str)
                      = Inr (text_lines [''['', ''  '' @ int_repr (status_code r) @ '','', ''  '' @ p, '']''])
                  \<and> snd (call_tool fs name arguments)
                      = Inr [TextContent ''text''
                          (text_lines [''['', ''  '' @ int_repr (status_code r) @ '','', ''  '' @ p, '']''])]))
          \<and> (\<not> encodable payload \<longrightarrow>
               (\<exists>e. json_dumps (PyList [PyInt (status_code r), payload]) 2 (Some str) = Inl e
                  \<and> snd (call_tool_try fs name arguments) = Inl e
                  \<and> snd (call_tool fs name arguments)
                      = (if isinstance_Exception e then call_tool_except e name arguments
                         else Inl e)))"
    by blast
next
  show "(\<exists>s. json_dumps v 2 (Some str) = Inr s) \<longleftrightarrow> encodable v"
    by (rule json_dumps_encodable)
next
  show "json_dumps (PyOther obj) 2 (Some str)
        = (case str obj of
             Inl e \<Rightarrow> Inl e
           | Inr s \<Rightarrow> Inr (quoted (concat (map escape_char s))))"
    by (rule dumps_other)
next
  show "json_dumps (PyList [PyInt 200, sample_value]) 2 (Some str) = Inr sample_rendering"
    by (rule sample_rendering_eq)
qed

theorem success_rendering_witness:
  "fst (call_tool backend_decimal ''balance'' []) = [Balance]
   \<and> backend_decimal Balance
       = Inr (Response 200 ''{}''
           (Inr (PyDict [(KStr ''balance'', PyOther (Object ''Decimal'' (Inr ''100.5'')))])))
   \<and> encodable (PyDict [(KStr ''balance'', PyOther (Object ''Decimal'' (Inr ''100.5'')))])
   \<and> snd (call_tool backend_decimal ''balance'' [])
       = Inr [TextContent ''text''
           (text_lines
             [''['',
              ''  200,'',
              ''  {'',
              ''    '' @ quoted ''balance'' @ '': '' @ quoted ''100.5'',
              ''  }'',
              '']''])]
   \<and> fst (call_tool backend_tuple_key ''balance'' []) = [Balance]
   \<and> \<not> encodable (PyDict [(KOther ''tuple'', PyInt 100)])
   \<and> snd (call_tool backend_tuple_key ''balance'' [])
       = call_tool_except (TypeError ''keys must be str, int, float, bool or None, not tuple'')
           ''balance'' []"
proof -
  let ?payload = "PyDict [(KStr ''balance'', PyOther (Object ''Decimal'' (Inr ''100.5'')))]"
  let ?r = "Response 200 ''{}'' (Inr ?payload)"
  have a: "fst (call_tool backend_decimal ''balance'' []) = [Balance]"
    by (simp add: call_tool_fst route_simps handled_fst)
  have b: "backend_decimal Balance = Inr ?r"
    by (simp add: backend_decimal_def)
  have enc: "encodable ?payload" by simp
  from success_rendering[OF a b, THEN conjunct1]
  obtain payload where h: "handle_response ?r = Inr (status_code ?r, payload)"
    and y: "encodable payload \<longrightarrow>
               (\<exists>p. iterencode 2 (Some str) 1 payload = Inr p
                  \<and> json_dumps (PyList [PyInt (status_code ?r), payload]) 2 (Some str)
                      = Inr (text_lines [''['', ''  '' @ int_repr (status_code ?r) @ '','', ''  '' @ p, '']''])
                  \<and> snd (call_tool backend_decimal ''balance'' [])
                      = Inr [TextContent ''text''
                          (text_lines [''['', ''  '' @ int_repr (status_code ?r) @ '','', ''  '' @ p, '']''])])"
    by (elim exE conjE)
  have "handle_response ?r = Inr (200, ?payload)"
    by (simp add: handle_response_def)
  with h have payload: "payload = ?payload"
    by simp
  from y enc obtain p where p: "iterencode 2 (Some str) 1 ?payload = Inr p"
    and t: "snd (call_tool backend_decimal ''balance'' [])
              = Inr [TextContent ''text''
                  (text_lines [''['', ''  '' @ int_repr (status_code ?r) @ '','', ''  '' @ p, '']''])]"
    unfolding payload by blast
  have "iterencode 2 (Some str) 1 ?payload
    = Inr (text_lines [''{'', ''    '' @ quoted ''balance'' @ '': '' @ quoted ''100.5'', ''  }''])"
    by code_simp
  with p have p': "p = text_lines [''{'', ''    '' @ quoted ''balance'' @ '': '' @ quoted ''100.5'', ''  }'']"
    by simp
  have "text_lines [''['', ''  '' @ int_repr (status_code ?r) @ '','', ''  '' @ p, '']'']
    = text_lines
             [''['',
              ''  200,'',
              ''  {'',
              ''    '' @ quoted ''balance'' @ '': '' @ quoted ''100.5'',
              ''  }'',
              '']'']"
    unfolding p' by code_simp
  with t have ok: "snd (call_tool backend_decimal ''balance'' [])
       = Inr [TextContent ''text''
           (text_lines
             [''['',
              ''  200,'',
              ''  {'',
              ''    '' @ quoted ''balance'' @ '': '' @ quoted ''100.5'',
              ''  }'',
              '']''])]"
    by (simp only:)
  let ?bad = "PyDict [(KOther ''tuple'', PyInt 100)]"
  let ?r' = "Response 200 ''{}'' (Inr ?bad)"
  have a': "fst (call_tool backend_tuple_key ''balance'' []) = [Balance]"
    by (simp add: call_tool_fst route_simps handled_fst)
  have b': "backend_tuple_key Balance = Inr ?r'"
    by (simp add: backend_tuple_key_def)
  have nenc: "\<not> encodable ?bad" by simp
  from success_rendering[OF a' b', THEN conjunct1]
  obtain payload' where h': "handle_response ?r' = Inr (status_code ?r', payload')"
    and n: "\<not> encodable payload' \<longrightarrow>
               (\<exists>e. json_dumps (PyList [PyInt (status_code ?r'), payload']) 2 (Some str) = Inl e
                  \<and> snd (call_tool_try backend_tuple_key ''balance'' []) = Inl e
                  \<and> snd (call_tool backend_tuple_key ''balance'' [])
                      = (if isinstance_Exception e then call_tool_except e ''balance'' []
                         else Inl e))"
    by (elim exE conjE)
  have "handle_response ?r' = Inr (200, ?bad)"
    by (simp add: handle_response_def)
  with h' have payload': "payload' = ?bad"
    by simp
  from n nenc obtain e where e: "json_dumps (PyList [PyInt (status_code ?r'), ?bad]) 2 (Some str) = Inl e"
    and t': "snd (call_tool backend_tuple_key ''balance'' [])
                      = (if isinstance_Exception e then call_tool_except e ''balance'' []
                         else Inl e)"
    unfolding payload' by blast
  have "json_dumps (PyList [PyInt (status_code ?r'), ?bad]) 2 (Some str)
    = Inl (TypeError ''keys must be str, int, float, bool or None, not tuple'')"
    by (simp add: json_dumps_def)
  with e have "e = TypeError ''keys must be str, int, float, bool or None, not tuple''"
    by simp
  with t' have bad: "snd (call_tool backend_tuple_key ''balance'' [])
       = call_tool_except (TypeError ''keys must be str, int, float, bool or None, not tuple'')
           ''balance'' []"
    by simp
  from a b enc ok a' nenc bad show ?thesis by (intro conjI)
qed

text \<open>
  C8, as stated, fails: when the client raises \<^verbatim>\<open>SystemExit\<close>, which
  \<^verbatim>\<open>except Exception\<close> does not take, the invocation raises and produces no
  envelope.
\<close>

theorem system_exit_leaves_no_envelope:
  "backend_exits Payment_methods = Inl SystemExit
   \<and> \<not> isinstance_Exception SystemExit
   \<and> snd (call_tool backend_exits ''payment_methods'' []) = Inl SystemExit"
  by code_simp

text \<open>
  C8, amended. An invocation of \<^verbatim>\<open>call_tool\<close> either returns a list of exactly one
  content item, of type \<^verbatim>\<open>text\<close>, or raises; it never returns an empty list or more
  than one item. It raises exactly when the \<^verbatim>\<open>try\<close> block raised an exception that
  is not an instance of \<^verbatim>\<open>Exception\<close>, which only the client call or the rendering
  of the client's response can do.
\<close>

theorem one_envelope_unless_base_exception:
  fixes name :: string
  shows "((\<exists>c. snd (call_tool fs name arguments) = Inr [c] \<and> content_type c = ''text'')
          \<or> (\<exists>e. snd (call_tool fs name arguments) = Inl e))
    \<and> (\<forall>e. snd (call_tool fs name arguments) = Inl e \<longleftrightarrow>
          \<not> isinstance_Exception e
          \<and> ((\<exists>c. fst (call_tool fs name arguments) = [c] \<and> fs c = Inl e)
             \<or> (\<exists>c r status payload.
                   fst (call_tool fs name arguments) = [c] \<and> fs c = Inr r
                   \<and> handle_response r = Inr (status, payload)
                   \<and> json_dumps (PyList [PyInt status, payload]) 2 (Some str) = Inl e)))"
proof (intro conjI allI)
  fix e
  have esc: "snd (call_tool fs name arguments) = Inl e \<longleftrightarrow>
    \<not> isinstance_Exception e \<and> snd (call_tool_try fs name arguments) = Inl e"
  proof (cases "snd (call_tool_try fs name arguments)")
    case (Inr out)
    then have "snd (call_tool fs name arguments) = Inr out" by (rule call_tool_snd_success)
    with Inr show ?thesis by simp
  next
    case (Inl e')
    show ?thesis
    proof (cases "isinstance_Exception e'")
      case True
      with Inl have "snd (call_tool fs name arguments) = call_tool_except e' name arguments"
        by (intro call_tool_snd_error)
      then have "\<exists>s. snd (call_tool fs name arguments) = Inr [TextContent ''text'' s]"
        using call_tool_except_returns[of e' name arguments] by auto
      with Inl True show ?thesis by auto
    next
      case False
      with Inl have "snd (call_tool fs name arguments) = Inl e'"
        by (intro call_tool_snd_escapes)
      with Inl False show ?thesis by auto
    qed
  qed
  have "\<not> isinstance_Exception e \<Longrightarrow>
    \<not> (name \<notin> set (map tool.name list_tools) \<and> e = ValueError (''Unknown tool: '' @ name))
    \<and> \<not> (\<exists>k. find (\<lambda>k. map_of arguments k = None) (required name) = Some k \<and> e = KeyError k)"
    by auto
  then show "snd (call_tool fs name arguments) = Inl e \<longleftrightarrow>
          \<not> isinstance_Exception e
          \<and> ((\<exists>c. fst (call_tool fs name arguments) = [c] \<and> fs c = Inl e)
             \<or> (\<exists>c r status payload.
                   fst (call_tool fs name arguments) = [c] \<and> fs c = Inr r
                   \<and> handle_response r = Inr (status, payload)
                   \<and> json_dumps (PyList [PyInt status, payload]) 2 (Some str) = Inl e))"
    unfolding esc call_tool_fst call_tool_try_failure_iff by blast
next
  show "(\<exists>c. snd (call_tool fs name arguments) = Inr [c] \<and> content_type c = ''text'')
          \<or> (\<exists>e. snd (call_tool fs name arguments) = Inl e)"
  proof (cases "snd (call_tool_try fs name arguments)")
    case (Inr out)
    then have o: "snd (call_tool fs name arguments) = Inr out" by (rule call_tool_snd_success)
    have "\<exists>s. out = [TextContent ''text'' s]"
    proof (cases "snd (route fs name arguments)")
      case (Inl e)
      then have "snd (call_tool_try fs name arguments) = Inl e" by (rule call_tool_try_route_Inl)
      with Inr show ?thesis by simp
    next
      case (Inr sp)
      obtain status payload where "sp = (status, payload)" by (cases sp)
      with Inr have "snd (call_tool_try fs name arguments)
        = (case json_dumps (PyList [PyInt status, payload]) 2 (Some str) of
             Inl e \<Rightarrow> Inl e
           | Inr s \<Rightarrow> Inr [TextContent ''text'' s])"
        by (intro call_tool_try_route_Inr) simp
      with \<open>snd (call_tool_try fs name arguments) = Inr out\<close> show ?thesis
        by (cases "json_dumps (PyList [PyInt status, payload]) 2 (Some str)") auto
    qed
    with o show ?thesis by auto
  next
    case (Inl e)
    show ?thesis
    proof (cases "isinstance_Exception e")
      case True
      with Inl have "snd (call_tool fs name arguments) = call_tool_except e name arguments"
        by (intro call_tool_snd_error)
      then show ?thesis
        using call_tool_except_returns[of e name arguments] by auto
    next
      case False
      with Inl have "snd (call_tool fs name arguments) = Inl e"
        by (intro call_tool_snd_escapes)
      then show ?thesis by blast
    qed
  qed
qed

theorem one_envelope_unless_base_exception_witness:
  "(\<exists>c. snd (call_tool backend_down ''balance'' []) = Inr [c] \<and> content_type c = ''text'')
   \<and> snd (call_tool backend_exits ''balance'' []) = Inl SystemExit"
proof -
  have "snd (call_tool backend_down ''balance'' []) \<noteq> Inl e" for e
  proof
    assume "snd (call_tool backend_down ''balance'' []) = Inl e"
    then have n: "\<not> isinstance_Exception e"
      and "(\<exists>c. fst (call_tool backend_down ''balance'' []) = [c] \<and> backend_down c = Inl e)
             \<or> (\<exists>c r status payload.
                   fst (call_tool backend_down ''balance'' []) = [c] \<and> backend_down c = Inr r
                   \<and> handle_response r = Inr (status, payload)
                   \<and> json_dumps (PyList [PyInt status, payload]) 2 (Some str) = Inl e)"
      unfolding one_envelope_unless_base_exception[of backend_down "''balance''" "[]",
        THEN conjunct2, rule_format] by simp_all
    then have "e = BackendError ''connection refused''"
      by (auto simp: backend_down_def)
    with n show False by simp
  qed
  then have a: "\<exists>c. snd (call_tool backend_down ''balance'' []) = Inr [c] \<and> content_type c = ''text''"
    using one_envelope_unless_base_exception[of backend_down "''balance''" "[]", THEN conjunct1]
    by blast
  have "\<not> isinstance_Exception SystemExit
          \<and> ((\<exists>c. fst (call_tool backend_exits ''balance'' []) = [c] \<and> backend_exits c = Inl SystemExit)
             \<or> (\<exists>c r status payload.
                   fst (call_tool backend_exits ''balance'' []) = [c] \<and> backend_exits c = Inr r
                   \<and> handle_response r = Inr (status, payload)
                   \<and> json_dumps (PyList [PyInt status, payload]) 2 (Some str) = Inl SystemExit))"
    by (simp add: call_tool_fst route_simps handled_fst backend_exits_def)
  then have b: "snd (call_tool backend_exits ''balance'' []) = Inl SystemExit"
    unfolding one_envelope_unless_base_exception[of backend_exits "''balance''" "[]",
        THEN conjunct2, rule_format] .
  from a b show ?thesis by (intro conjI)
qed



text \<open>
  C10. The outcome of the \<^verbatim>\<open>try\<close> block of \<^verbatim>\<open>call_tool\<close> (the call made
  to the client, and the content returned or the exception raised) depends on the tool name
  and on the values of the keys the tool's schema requires, and on nothing else of the
  arguments: two argument mappings that agree on these keys give the same outcome, and for
  the three tools without required keys any two mappings do. The other keys show only in
  the arguments that an error envelope echoes.
\<close>

theorem depends_only_on_required_keys:
  fixes name :: string
  assumes "\<forall>k\<in>set (required name). map_of a1 k = map_of a2 k"
  shows "call_tool_try fs name a1 = call_tool_try fs name a2
    \<and> fst (call_tool fs name a1) = fst (call_tool fs name a2)
    \<and> snd (call_tool fs name a2)
        = (case snd (call_tool_try fs name a1) of
             Inr out \<Rightarrow> Inr out
           | Inl e \<Rightarrow> if isinstance_Exception e then call_tool_except e name a2 else Inl e)
    \<and> call_tool_try fs ''balance'' b1 = call_tool_try fs ''balance'' b2
    \<and> call_tool_try fs ''payment_methods'' b1 = call_tool_try fs ''payment_methods'' b2
    \<and> call_tool_try fs ''billing_info'' b1 = call_tool_try fs ''billing_info'' b2"
proof (intro conjI)
  have "route fs name a1 = route fs name a2"
    using assms by (intro route_agree) blast
  then show t: "call_tool_try fs name a1 = call_tool_try fs name a2"
    by (rule call_tool_try_route)
  show "fst (call_tool fs name a1) = fst (call_tool fs name a2)"
    using \<open>route fs name a1 = route fs name a2\<close> by (simp add: call_tool_fst)
  show "snd (call_tool fs name a2)
        = (case snd (call_tool_try fs name a1) of
             Inr out \<Rightarrow> Inr out
           | Inl e \<Rightarrow> if isinstance_Exception e then call_tool_except e name a2 else Inl e)"
    unfolding t by (cases "call_tool_try fs name a2") (simp add: call_tool_def split: sum.splits)
  show "call_tool_try fs ''balance'' b1 = call_tool_try fs ''balance'' b2"
    by (rule call_tool_try_route) (simp add: route_simps)
  show "call_tool_try fs ''payment_methods'' b1 = call_tool_try fs ''payment_methods'' b2"
    by (rule call_tool_try_route) (simp add: route_simps)
  show "call_tool_try fs ''billing_info'' b1 = call_tool_try fs ''billing_info'' b2"
    by (rule call_tool_try_route) (simp add: route_simps)
qed

theorem depends_only_on_required_keys_witness:
  "required ''payment_info'' = [''pid'']
   \<and> map_of [(''pid'', JStr ''abc'')] ''pid''
       = map_of [(''note'', JStr ''x''), (''pid'', JStr ''abc''), (''extra'', JInt 1)] ''pid''
   \<and> call_tool_try backend_ok ''payment_info'' [(''pid'', JStr ''abc'')]
       = call_tool_try backend_ok ''payment_info''
           [(''note'', JStr ''x''), (''pid'', JStr ''abc''), (''extra'', JInt 1)]
   \<and> fst (call_tool backend_ok ''payment_info''
            [(''note'', JStr ''x''), (''pid'', JStr ''abc''), (''extra'', JInt 1)])
       = [Payment_info (JStr ''abc'')]"
proof -
  let ?a1 = "[(''pid'', JStr ''abc'')]"
  let ?a2 = "[(''note'', JStr ''x''), (''pid'', JStr ''abc''), (''extra'', JInt 1)]"
  have r: "required ''payment_info'' = [''pid'']" by (simp add: required_simps)
  have m: "map_of ?a1 ''pid'' = map_of ?a2 ''pid''" by simp
  have h: "\<forall>k\<in>set (required ''payment_info''). map_of ?a1 k = map_of ?a2 k"
    unfolding r using m by simp
  note d = depends_only_on_required_keys[OF h, of backend_ok]
  have t: "call_tool_try backend_ok ''payment_info'' ?a1 = call_tool_try backend_ok ''payment_info'' ?a2"
    by (rule d[THEN conjunct1])
  have "fst (call_tool backend_ok ''payment_info'' ?a1) = [Payment_info (JStr ''abc'')]"
    by (simp add: call_tool_fst route_simps handled_fst)
  with d[THEN conjunct2, THEN conjunct1]
  have c: "fst (call_tool backend_ok ''payment_info'' ?a2) = [Payment_info (JStr ''abc'')]"
    by (simp only:)
  from r m t c show ?thesis by (intro conjI)
qed

end
